theory Spec2Isabelle
  imports Main "HOL-Library.Word"
begin

section \<open>Types and constants of coroutine.h\<close>

text \<open>
  The header fixes the data model of the library: the coroutine states, the members of
  \<open>Coroutine\<close>, \<open>Generator<T>\<close> and \<open>CoroutineScheduler\<close>, the default arguments of
  the constructors and the inline member functions. Members are named as in the header
  without the trailing underscore (\<open>state_\<close> is \<open>state\<close>, \<open>last_tick_\<close> is
  \<open>last_tick\<close>), since Isabelle reserves names that end in an underscore; \<open>id_\<close> is
  \<open>co_id\<close>.
\<close>

type_synonym uint64_t = "64 word"
type_synonym uint32_t = "32 word"
type_synonym size_t = "64 word"

text \<open>\<open>time_t\<close> is a signed 64-bit integer: a word read by \<open>sint\<close>.\<close>

type_synonym time_t = "64 word"

text \<open>A pointer is an address; \<open>nullptr\<close> is \<open>None\<close> of an \<open>addr option\<close>.\<close>

type_synonym addr = nat

definition kCoDefaultStackSize :: size_t where
  "kCoDefaultStackSize = 32 * 1024"

datatype State = kCoNew | kCoReady | kCoRunning | kCoYielded | kCoWaiting | kCoDead

text \<open>\<open>struct pollfd\<close> of poll.h, without the field the kernel fills in, and \<open>POLLIN\<close>.\<close>

record pollfd =
  fd :: int
  events :: "16 word"

definition POLLIN :: "16 word" where
  "POLLIN = 1"

text \<open>
  The body of a generator, seen from its caller: each time it is given control it either
  passes a value to \<open>YieldValue\<close> and continues with the rest of the body at its next
  resumption, or returns. The type is a codatatype, so a body that yields forever is a
  value of it as well.
\<close>

codatatype 'a GenCode = GenYieldValue 'a "'a GenCode" | GenReturn

text \<open>
  The members of \<open>class Coroutine\<close>. \<open>resume\<close> is the saved context \<open>resume_\<close>:
  what the coroutine does when control is swapped to it, so its type is a parameter.
  \<open>event_armed\<close> is the state of the kernel object behind \<open>event_fd_\<close>: whether the
  event has been triggered and not yet cleared. \<open>to_string_callback\<close> holds the string
  the installed callback returns.
\<close>

record 'ctx Coroutine =
  co_id :: uint32_t
  name :: string
  state :: State
  stack_size :: size_t
  resume :: 'ctx
  wait_result :: int
  first_resume :: bool
  event_fd :: pollfd
  event_armed :: bool
  wait_fds :: "pollfd list"
  caller :: "addr option"
  user_data :: "addr option"
  last_tick :: uint64_t
  to_string_callback :: "string option"

text \<open>
  \<open>class Generator : public Coroutine\<close> adds \<open>T *result_ = nullptr\<close>. Its body
  \<open>gen_function_\<close> is what the base class runs, so it is the content of \<open>resume\<close>.
\<close>

record 'a Generator = "'a GenCode Coroutine" +
  result :: "addr option"

section \<open>Constructors\<close>

text \<open>
  The arguments the constructor of \<open>Coroutine\<close> receives after the scheduler and the
  function: \<open>const char *name\<close>, \<open>bool autostart\<close>, \<open>size_t stack_size\<close> and
  \<open>void *user_data\<close>.
\<close>

record CoroutineArgs =
  arg_name :: "string option"
  arg_autostart :: bool
  arg_stack_size :: size_t
  arg_user_data :: "addr option"

text \<open>
  The default arguments of the declaration
  \<^verbatim>\<open>Coroutine(CoroutineScheduler &machine, CoroutineFunction function,
            const char *name = nullptr, bool autostart = true,
            size_t stack_size = kCoDefaultStackSize, void *user_data = nullptr)\<close>:
  an argument the call leaves out is \<open>None\<close> and takes its default.
\<close>

definition Coroutine_args ::
  "string option option \<Rightarrow> bool option \<Rightarrow> size_t option \<Rightarrow> addr option option
   \<Rightarrow> CoroutineArgs" where
  "Coroutine_args name_arg autostart stack_size_arg user_data_arg =
     \<lparr>arg_name = (case name_arg of None \<Rightarrow> None | Some n \<Rightarrow> n),
      arg_autostart = (case autostart of None \<Rightarrow> True | Some b \<Rightarrow> b),
      arg_stack_size = (case stack_size_arg of None \<Rightarrow> kCoDefaultStackSize | Some s \<Rightarrow> s),
      arg_user_data = (case user_data_arg of None \<Rightarrow> None | Some u \<Rightarrow> u)\<rparr>"

text \<open>
  The constructor of \<open>Generator<T>\<close> has the defaults \<open>name = nullptr\<close>,
  \<open>stack_size = kCoDefaultStackSize\<close> and \<open>user_data = nullptr\<close>, and calls the base
  constructor with \<^verbatim>\<open>name, /*autostart=*/false, stack_size, user_data\<close>.
\<close>

definition Generator_args ::
  "string option option \<Rightarrow> size_t option \<Rightarrow> addr option option \<Rightarrow> CoroutineArgs" where
  "Generator_args name_arg stack_size_arg user_data_arg =
     Coroutine_args
       (Some (case name_arg of None \<Rightarrow> None | Some n \<Rightarrow> n))
       (Some False)
       (Some (case stack_size_arg of None \<Rightarrow> kCoDefaultStackSize | Some s \<Rightarrow> s))
       (Some (case user_data_arg of None \<Rightarrow> None | Some u \<Rightarrow> u))"

text \<open>
  Modelled from the spec: \<open>Coroutine::Start\<close>, whose body is in coroutine.cc. The spec
  (4.3): "idempotent for already-running; otherwise transitions to \<open>Ready\<close> and arms
  event_fd so the scheduler picks it up", and the lifecycle table has the one transition
  \<open>New\<close> to \<open>Ready\<close> for it.
\<close>

definition Start :: "('ctx, 'm) Coroutine_scheme \<Rightarrow> ('ctx, 'm) Coroutine_scheme" where
  "Start c = (if state c = kCoNew then c\<lparr>state := kCoReady, event_armed := True\<rparr> else c)"

text \<open>
  Modelled from the spec: the body of the constructor of \<open>Coroutine\<close>, which is in
  coroutine.cc. The spec (4.3): it "allocates a stack, assigns an ID, wires up the
  coroutine's event_fd, registers with the scheduler, and, if autostart, transitions
  \<open>New\<close> to \<open>Ready\<close> and requests a pure-yield wakeup". The members that the header
  initialises take the header's values: \<open>first_resume_ = true\<close>,
  \<open>caller_ = nullptr\<close>, \<open>last_tick_ = 0\<close>. The id the scheduler assigns, the event
  descriptor and the name given to a coroutine constructed without one are parameters.
\<close>

definition Coroutine_ctor ::
  "uint32_t \<Rightarrow> int \<Rightarrow> string \<Rightarrow> 'ctx \<Rightarrow> CoroutineArgs \<Rightarrow> 'm \<Rightarrow> ('ctx, 'm) Coroutine_scheme" where
  "Coroutine_ctor new_id efd auto_name function args m =
     (let c = \<lparr>co_id = new_id,
                name = (case arg_name args of None \<Rightarrow> auto_name | Some n \<Rightarrow> n),
                state = kCoNew,
                stack_size = arg_stack_size args,
                resume = function,
                wait_result = 0,
                first_resume = True,
                event_fd = \<lparr>fd = efd, events = POLLIN\<rparr>,
                event_armed = False,
                wait_fds = [],
                caller = None,
                user_data = arg_user_data args,
                last_tick = 0,
                to_string_callback = None,
                \<dots> = m\<rparr>
      in if arg_autostart args then Start c else c)"

text \<open>
  The constructor of \<open>Generator<T>\<close>: the base constructor on the generator's arguments,
  and the member initialiser \<open>result_ = nullptr\<close>.
\<close>

definition Generator_ctor ::
  "uint32_t \<Rightarrow> int \<Rightarrow> string \<Rightarrow> 'a GenCode \<Rightarrow> string option option \<Rightarrow> size_t option
   \<Rightarrow> addr option option \<Rightarrow> 'a Generator" where
  "Generator_ctor new_id efd auto_name function name_arg stack_size_arg user_data_arg =
     Coroutine_ctor new_id efd auto_name function
       (Generator_args name_arg stack_size_arg user_data_arg) \<lparr>result = None\<rparr>"

section \<open>The call protocol of a generator\<close>

text \<open>
  The part of the program state that a \<open>Call\<close> touches: the generator, and the memory
  cells of type \<open>T\<close> that pointers of type \<open>T *\<close> address (the local \<open>result\<close> of a
  caller's frame is one of them).
\<close>

record 'a World =
  gen :: "'a Generator"
  mem :: "addr \<Rightarrow> 'a"

text \<open>
  \<open>Generator<T>::YieldValue\<close>:
  \<^verbatim>\<open>if (result_ != nullptr) { *result_ = value; }
  YieldNonTemplate();\<close>
  \<open>YieldNonTemplate\<close> is declared in the header and defined in coroutine.cc; the
  function takes it as its first argument.
\<close>

definition YieldValue :: "('a World \<Rightarrow> 'a World) \<Rightarrow> 'a \<Rightarrow> 'a World \<Rightarrow> 'a World" where
  "YieldValue yield_non_template v w =
     yield_non_template
       (case result (gen w) of
          Some p \<Rightarrow> w\<lparr>mem := (mem w)(p := v)\<rparr>
        | None \<Rightarrow> w)"

text \<open>
  The declaration \<^verbatim>\<open>T result;\<close> default-initialises the local. For a class type
  that is a call of its default constructor, which makes the value \<open>d\<close> of
  \<open>DefaultConstructed d\<close>. For a scalar type (an \<open>int\<close>, a pointer) nothing is
  written: the local is \<open>Uninitialised\<close> and its cell holds what it held before, which
  is what the function reads when it returns the local unwritten.
\<close>

datatype 'a DefaultInit = DefaultConstructed 'a | Uninitialised

definition default_initialise :: "'a DefaultInit \<Rightarrow> addr \<Rightarrow> (addr \<Rightarrow> 'a) \<Rightarrow> (addr \<Rightarrow> 'a)" where
  "default_initialise dinit p m =
     (case dinit of DefaultConstructed d \<Rightarrow> m(p := d) | Uninitialised \<Rightarrow> m)"

text \<open>
  \<open>Coroutine::Call\<close>:
  \<^verbatim>\<open>T result;
  callee.caller_ = this;
  callee.result_ = &result;
  CallNonTemplate(callee);
  callee.result_ = nullptr;
  return result;\<close>
  \<open>this_co\<close> is the caller, \<open>res\<close> is the address of the local \<open>result\<close> in the
  caller's frame and \<open>dinit\<close> says what default-initialisation does for the type
  \<open>T\<close>. \<open>CallNonTemplate\<close> is declared in the header and defined in coroutine.cc;
  the function takes it as its first argument, and \<open>None\<close> is a \<open>CallNonTemplate\<close>
  that does not return.
\<close>

definition Call ::
  "('a World \<Rightarrow> 'a World option) \<Rightarrow> addr \<Rightarrow> addr \<Rightarrow> 'a DefaultInit \<Rightarrow> 'a World
   \<Rightarrow> ('a \<times> 'a World) option" where
  "Call call_non_template this_co res dinit w =
     (let w1 = w\<lparr>mem := default_initialise dinit res (mem w)\<rparr>;
          w2 = w1\<lparr>gen := (gen w1)\<lparr>caller := Some this_co\<rparr>\<rparr>;
          w3 = w2\<lparr>gen := (gen w2)\<lparr>result := Some res\<rparr>\<rparr>
      in case call_non_template w3 of
           None \<Rightarrow> None
         | Some w4 \<Rightarrow>
             (let w5 = w4\<lparr>gen := (gen w4)\<lparr>result := None\<rparr>\<rparr>
              in Some (mem w5 res, w5)))"

text \<open>
  Modelled from the spec: \<open>Coroutine::YieldNonTemplate\<close>, whose body is in coroutine.cc.
  The spec (4.4, step 4): \<open>YieldValue\<close> "arms its own event_fd for next resumption, and
  swaps back directly to the caller"; a coroutine that has yielded is in state
  \<open>Yielded\<close> (invariant 4). The swap saves the rest of the body, \<open>rest\<close>, as the
  context to resume.
\<close>

definition YieldNonTemplate :: "'a GenCode \<Rightarrow> 'a World \<Rightarrow> 'a World" where
  "YieldNonTemplate rest w =
     w\<lparr>gen := (gen w)\<lparr>state := kCoYielded, event_armed := True, resume := rest\<rparr>\<rparr>"

text \<open>
  Modelled from the spec: the swap into the generator's context (4.2, 4.4 step 3). The
  generator is \<open>Running\<close>, its first resume is over (\<open>first_resume\<close> is "true until the
  first resume completes"), and it continues its body from the saved context until it
  gives control back: at a \<open>YieldValue\<close> (step 4), or when the body returns, which
  "marks state \<open>Dead\<close>" (4.3, \<open>InvokeFunction\<close>) and leaves no value (step 6).
\<close>

definition SwapInto :: "'a World \<Rightarrow> 'a World" where
  "SwapInto w =
     (let w1 = w\<lparr>gen := (gen w)\<lparr>state := kCoRunning, first_resume := False\<rparr>\<rparr>
      in case resume (gen w1) of
           GenYieldValue v rest \<Rightarrow> YieldValue (YieldNonTemplate rest) v w1
         | GenReturn \<Rightarrow> w1\<lparr>gen := (gen w1)\<lparr>state := kCoDead\<rparr>\<rparr>)"

text \<open>
  Modelled from the spec: \<open>Coroutine::CallNonTemplate\<close>, whose body is in coroutine.cc.
  The spec (4.4): "2. If the generator is in state \<open>New\<close>, starts it. 3. Swaps into the
  generator's context directly"; when control is back the call is over and \<open>caller\<close> is
  null again (invariant 5). A \<open>Call\<close> on a \<open>Dead\<close> generator is invalid-state misuse
  (7), on which "implementations should assert": it does not return.
\<close>

definition CallNonTemplate :: "'a World \<Rightarrow> 'a World option" where
  "CallNonTemplate w =
     (if state (gen w) = kCoDead then None
      else
        (let w1 = (if state (gen w) = kCoNew then w\<lparr>gen := Start (gen w)\<rparr> else w);
             w2 = SwapInto w1
         in Some (w2\<lparr>gen := (gen w2)\<lparr>caller := None\<rparr>\<rparr>)))"

text \<open>
  Successive calls by one caller, the \<open>i\<close>-th from a frame whose local \<open>result\<close> is at
  the \<open>i\<close>-th address of the list; the values returned, in order. Between two calls the
  caller does not touch the generator.
\<close>

fun Calls ::
  "addr \<Rightarrow> 'a DefaultInit \<Rightarrow> addr list \<Rightarrow> 'a World \<Rightarrow> ('a list \<times> 'a World) option" where
  "Calls this_co dinit [] w = Some ([], w)"
| "Calls this_co dinit (res # frames) w =
     (case Call CallNonTemplate this_co res dinit w of
        None \<Rightarrow> None
      | Some (v, w') \<Rightarrow>
          (case Calls this_co dinit frames w' of
             None \<Rightarrow> None
           | Some (vs, w'') \<Rightarrow> Some (v # vs, w'')))"

text \<open>A body that passes the values of a list to \<open>YieldValue\<close>, in order, and goes on as \<open>rest\<close>.\<close>

fun yields :: "'a list \<Rightarrow> 'a GenCode \<Rightarrow> 'a GenCode" where
  "yields [] rest = rest"
| "yields (v # vs) rest = GenYieldValue v (yields vs rest)"

text \<open>
  A world for the examples: a generator of numbers, fresh from its constructor, whose
  body yields 1, 2 and 3 and returns.
\<close>

definition example_world :: "nat World" where
  "example_world =
     \<lparr>gen = Generator_ctor 0 3 ''gen'' (yields [1, 2, 3] GenReturn) None None None,
      mem = (\<lambda>_. 0)\<rparr>"

section \<open>Inline members of Coroutine\<close>

text \<open>
  The accessors and setters the header defines inline: \<open>SetName\<close>, \<open>Name\<close>,
  \<open>SetUserData\<close>, \<open>UserData\<close>, \<open>LastTick\<close>, \<open>Id\<close>, \<open>SeToStringCallback\<close> and
  \<open>GetState\<close>.
\<close>

definition SetName :: "string \<Rightarrow> ('ctx, 'm) Coroutine_scheme \<Rightarrow> ('ctx, 'm) Coroutine_scheme" where
  "SetName n c = c\<lparr>name := n\<rparr>"

definition Name :: "('ctx, 'm) Coroutine_scheme \<Rightarrow> string" where
  "Name c = name c"

definition SetUserData ::
  "addr option \<Rightarrow> ('ctx, 'm) Coroutine_scheme \<Rightarrow> ('ctx, 'm) Coroutine_scheme" where
  "SetUserData u c = c\<lparr>user_data := u\<rparr>"

definition UserData :: "('ctx, 'm) Coroutine_scheme \<Rightarrow> addr option" where
  "UserData c = user_data c"

definition LastTick :: "('ctx, 'm) Coroutine_scheme \<Rightarrow> uint64_t" where
  "LastTick c = last_tick c"

definition Id :: "('ctx, 'm) Coroutine_scheme \<Rightarrow> uint32_t" where
  "Id c = co_id c"

definition SeToStringCallback ::
  "string option \<Rightarrow> ('ctx, 'm) Coroutine_scheme \<Rightarrow> ('ctx, 'm) Coroutine_scheme" where
  "SeToStringCallback cb c = c\<lparr>to_string_callback := cb\<rparr>"

definition GetState :: "('ctx, 'm) Coroutine_scheme \<Rightarrow> State" where
  "GetState c = state c"

text \<open>
  \<open>Millisleep\<close> and \<open>Sleep\<close>:
  \<^verbatim>\<open>void Millisleep(time_t msecs) { Nanosleep(static_cast<uint64_t>(msecs) * 1000000LL); }
  void Sleep(time_t secs) { Nanosleep(static_cast<uint64_t>(secs) * 1000000000LL); }\<close>
  The cast of the signed \<open>time_t\<close> to \<open>uint64_t\<close> keeps the value modulo \<open>2 ^ 64\<close>,
  and the product is a product of \<open>uint64_t\<close>: it wraps around. \<open>Nanosleep\<close> is
  declared in the header and defined in coroutine.cc; the functions take it as their
  first argument.
\<close>

definition static_cast_uint64_t :: "time_t \<Rightarrow> uint64_t" where
  "static_cast_uint64_t t = word_of_int (sint t)"

definition Millisleep :: "(uint64_t \<Rightarrow> 's \<Rightarrow> 's) \<Rightarrow> time_t \<Rightarrow> 's \<Rightarrow> 's" where
  "Millisleep nanosleep msecs = nanosleep (static_cast_uint64_t msecs * 1000000)"

definition Sleep :: "(uint64_t \<Rightarrow> 's \<Rightarrow> 's) \<Rightarrow> time_t \<Rightarrow> 's \<Rightarrow> 's" where
  "Sleep nanosleep secs = nanosleep (static_cast_uint64_t secs * 1000000000)"

section \<open>Suspension and resumption\<close>

text \<open>
  Modelled from the spec: \<open>Coroutine::Resume\<close>, whose body is in coroutine.cc. The
  lifecycle table (4.3) lets the scheduler resume a coroutine that is \<open>Ready\<close>,
  \<open>Yielded\<close> or \<open>Waiting\<close>, which makes it \<open>Running\<close>; "each resume stamps the
  coroutine's \<open>last_tick\<close>" with the scheduler's tick count (3), \<open>wait_result\<close> is the
  "integer delivered on next resume", and \<open>first_resume\<close> is "true until the first
  resume completes".
\<close>

definition Resume ::
  "uint64_t \<Rightarrow> int \<Rightarrow> ('ctx, 'm) Coroutine_scheme \<Rightarrow> ('ctx, 'm) Coroutine_scheme" where
  "Resume tick val c =
     (if state c = kCoReady \<or> state c = kCoYielded \<or> state c = kCoWaiting
      then c\<lparr>state := kCoRunning, wait_result := val, first_resume := False,
             last_tick := tick\<rparr>
      else c)"

text \<open>
  Modelled from the spec: the part of \<open>Coroutine::Yield\<close> before the swap to the
  scheduler (4.3): it "sets state \<open>Yielded\<close>, arms event_fd".
\<close>

definition Yield :: "('ctx, 'm) Coroutine_scheme \<Rightarrow> ('ctx, 'm) Coroutine_scheme" where
  "Yield c = c\<lparr>state := kCoYielded, event_armed := True\<rparr>"

text \<open>
  Modelled from the spec: \<open>Coroutine::Exit\<close> and the return of the body (4.3): the
  coroutine is \<open>Dead\<close> and control is back in the scheduler.
\<close>

definition Exit :: "('ctx, 'm) Coroutine_scheme \<Rightarrow> ('ctx, 'm) Coroutine_scheme" where
  "Exit c = c\<lparr>state := kCoDead\<rparr>"

text \<open>
  Modelled from the spec: \<open>Coroutine::AddTimeout\<close>, whose body is in coroutine.cc. A
  wait with \<open>timeout_ns > 0\<close> "adds an additional timer file descriptor" (4.3) to the
  descriptors awaited. \<open>new_timer\<close> is the descriptor the operating system hands out
  for the timer; the function returns the timer's descriptor, and \<open>-1\<close>, which is no
  descriptor, when there is no timeout.
\<close>

definition AddTimeout ::
  "int \<Rightarrow> uint64_t \<Rightarrow> ('ctx, 'm) Coroutine_scheme \<Rightarrow> int \<times> ('ctx, 'm) Coroutine_scheme" where
  "AddTimeout new_timer timeout_ns c =
     (if 0 < timeout_ns
      then (new_timer, c\<lparr>wait_fds := wait_fds c @ [\<lparr>fd = new_timer, events = POLLIN\<rparr>]\<rparr>)
      else (-1, c))"

text \<open>
  Modelled from the spec: \<open>Coroutine::EndOfWait\<close>, whose body is in coroutine.cc. The
  spec (4.3): "if the triggering fd is the timer, result = -1; else result =
  triggering_fd. Drain/clear the event_fd if that was the trigger. Clear wait_fds." The
  triggering descriptor is the value the resume delivered, \<open>wait_result\<close>.
\<close>

definition EndOfWait ::
  "int \<Rightarrow> ('ctx, 'm) Coroutine_scheme \<Rightarrow> int \<times> ('ctx, 'm) Coroutine_scheme" where
  "EndOfWait timer_fd c =
     (let r = (if wait_result c = timer_fd then -1 else wait_result c);
          c1 = (if wait_result c = fd (event_fd c) then c\<lparr>event_armed := False\<rparr> else c)
      in (r, c1\<lparr>wait_fds := []\<rparr>))"

text \<open>
  Modelled from the spec: \<open>Coroutine::Wait\<close> on a vector of pollfds, whose body is in
  coroutine.cc. The spec (4.3): it "sets state \<open>Waiting\<close>, installs \<open>wait_fds\<close> from
  the argument, if \<open>timeout_ns > 0\<close> adds an additional timer file descriptor, swaps
  out. Returns the fd that triggered resumption or -1 on timeout." What happens while
  the coroutine is swapped out is the environment's: the scheduler resumes it at the
  tick \<open>fst resumption\<close>, delivering the descriptor \<open>snd resumption\<close> that triggered
  the resumption. \<open>BeginWait\<close> is the part of \<open>Wait\<close> before the swap.
\<close>

definition BeginWait ::
  "pollfd list \<Rightarrow> uint64_t \<Rightarrow> int \<Rightarrow> ('ctx, 'm) Coroutine_scheme
   \<Rightarrow> int \<times> ('ctx, 'm) Coroutine_scheme" where
  "BeginWait fds timeout_ns new_timer c =
     AddTimeout new_timer timeout_ns (c\<lparr>state := kCoWaiting, wait_fds := fds\<rparr>)"

definition Wait ::
  "pollfd list \<Rightarrow> uint64_t \<Rightarrow> int \<Rightarrow> uint64_t \<times> int \<Rightarrow> ('ctx, 'm) Coroutine_scheme
   \<Rightarrow> int \<times> ('ctx, 'm) Coroutine_scheme" where
  "Wait fds timeout_ns new_timer resumption c =
     (let (timer_fd, c1) = BeginWait fds timeout_ns new_timer c;
          c2 = Resume (fst resumption) (snd resumption) c1
      in EndOfWait timer_fd c2)"

text \<open>
  Modelled from the spec: the variants of \<open>Wait\<close> on one descriptor with an event mask
  and on one pollfd; each awaits the one descriptor it is given.
\<close>

definition Wait_fd ::
  "int \<Rightarrow> 16 word \<Rightarrow> uint64_t \<Rightarrow> int \<Rightarrow> uint64_t \<times> int \<Rightarrow> ('ctx, 'm) Coroutine_scheme
   \<Rightarrow> int \<times> ('ctx, 'm) Coroutine_scheme" where
  "Wait_fd f event_mask timeout_ns new_timer resumption c =
     Wait [\<lparr>fd = f, events = event_mask\<rparr>] timeout_ns new_timer resumption c"

definition Wait_pollfd ::
  "pollfd \<Rightarrow> uint64_t \<Rightarrow> int \<Rightarrow> uint64_t \<times> int \<Rightarrow> ('ctx, 'm) Coroutine_scheme
   \<Rightarrow> int \<times> ('ctx, 'm) Coroutine_scheme" where
  "Wait_pollfd pfd timeout_ns new_timer resumption c =
     Wait [pfd] timeout_ns new_timer resumption c"

text \<open>
  Modelled from the spec: \<open>Coroutine::Nanosleep\<close>, whose body is in coroutine.cc. The
  spec (4.3): "equivalent to \<open>Wait\<close> with an empty user-fd set and the given timeout;
  returns when timer fires". It returns no value.
\<close>

definition Nanosleep ::
  "int \<Rightarrow> uint64_t \<times> int \<Rightarrow> uint64_t \<Rightarrow> ('ctx, 'm) Coroutine_scheme
   \<Rightarrow> ('ctx, 'm) Coroutine_scheme" where
  "Nanosleep new_timer resumption ns c = snd (Wait [] ns new_timer resumption c)"

section \<open>The history of one coroutine\<close>

text \<open>
  What can happen to a coroutine after its construction, one event at a time: the
  setters of the header, \<open>Start\<close>, a resume by the scheduler, and the coroutine's own
  suspensions and exit.
\<close>

datatype Event =
    EvSetName string
  | EvSetUserData "addr option"
  | EvSeToStringCallback "string option"
  | EvStart
  | EvResume uint64_t int
  | EvYield
  | EvBeginWait "pollfd list" uint64_t int
  | EvEndOfWait int
  | EvExit

fun is_resume :: "Event \<Rightarrow> bool" where
  "is_resume (EvResume tick val) = True"
| "is_resume e = False"

fun apply_event :: "Event \<Rightarrow> ('ctx, 'm) Coroutine_scheme \<Rightarrow> ('ctx, 'm) Coroutine_scheme" where
  "apply_event (EvSetName n) c = SetName n c"
| "apply_event (EvSetUserData u) c = SetUserData u c"
| "apply_event (EvSeToStringCallback cb) c = SeToStringCallback cb c"
| "apply_event EvStart c = Start c"
| "apply_event (EvResume tick val) c = Resume tick val c"
| "apply_event EvYield c = Yield c"
| "apply_event (EvBeginWait fds timeout_ns new_timer) c =
     snd (BeginWait fds timeout_ns new_timer c)"
| "apply_event (EvEndOfWait timer_fd) c = snd (EndOfWait timer_fd c)"
| "apply_event EvExit c = Exit c"

fun run_events :: "Event list \<Rightarrow> ('ctx, 'm) Coroutine_scheme \<Rightarrow> ('ctx, 'm) Coroutine_scheme" where
  "run_events [] c = c"
| "run_events (e # es) c = run_events es (apply_event e c)"

text \<open>
  A coroutine for the examples: constructed with the default arguments, so started by
  its constructor, with id 1 and event descriptor 4.
\<close>

definition example_coroutine :: "unit Coroutine" where
  "example_coroutine =
     Coroutine_ctor 1 4 ''co-1'' () (Coroutine_args None None None None) ()"

section \<open>The scheduler\<close>

text \<open>
  Modelled from the spec: \<open>BitSet\<close>, which is declared in bitset.h, a file that is
  not among the sources. The spec (3, 4.1): a "dense bit set of allocated IDs" that
  "grows on demand". It is a list of bits, bit \<open>i\<close> set when the id \<open>i\<close> is
  allocated.
\<close>

type_synonym BitSet = "bool list"

text \<open>
  The members of \<open>class CoroutineScheduler\<close> that the properties below are about:
  \<open>coroutines_\<close>, \<open>coroutine_ids_\<close>, \<open>last_freed_coroutine_id_\<close>, \<open>running_\<close> and
  \<open>tick_count_\<close>.
\<close>

record CoroutineScheduler =
  coroutines :: "unit Coroutine list"
  coroutine_ids :: BitSet
  last_freed_coroutine_id :: uint32_t
  running :: bool
  tick_count :: uint64_t

text \<open>
  The member initialisers of the header: \<open>last_freed_coroutine_id_ = -1U\<close>,
  \<open>running_ = false\<close>, \<open>tick_count_ = 0\<close>; the containers are empty.
\<close>

definition CoroutineScheduler_ctor :: CoroutineScheduler where
  "CoroutineScheduler_ctor =
     \<lparr>coroutines = [], coroutine_ids = [], last_freed_coroutine_id = - 1, running = False,
      tick_count = 0\<rparr>"

text \<open>Modelled from the spec: \<open>BitSet::Contains\<close> (4.1, \<open>contains(id)\<close>).\<close>

definition Contains :: "BitSet \<Rightarrow> uint32_t \<Rightarrow> bool" where
  "Contains bits k = (unat k < length bits \<and> bits ! unat k)"

text \<open>\<open>IdExists\<close>, inline in the header: \<^verbatim>\<open>return coroutine_ids_.Contains(id);\<close>\<close>

definition IdExists :: "CoroutineScheduler \<Rightarrow> uint32_t \<Rightarrow> bool" where
  "IdExists s k = Contains (coroutine_ids s) k"

text \<open>
  Modelled from the spec: \<open>CoroutineScheduler::AllocateId\<close>, whose body is in
  coroutine.cc. The spec (4.1): "Allocation scans for the lowest unset bit other than
  \<open>last_freed\<close>, falling back to \<open>last_freed\<close> if it is the only free slot; grows on
  demand."
\<close>

definition AllocateId :: "CoroutineScheduler \<Rightarrow> uint32_t \<times> CoroutineScheduler" where
  "AllocateId s =
     (let bits = coroutine_ids s; lf = unat (last_freed_coroutine_id s)
      in case find (\<lambda>i. \<not> bits ! i \<and> i \<noteq> lf) [0..<length bits] of
           Some i \<Rightarrow> (of_nat i, s\<lparr>coroutine_ids := bits[i := True]\<rparr>)
         | None \<Rightarrow>
             if lf < length bits \<and> \<not> bits ! lf
             then (of_nat lf, s\<lparr>coroutine_ids := bits[lf := True]\<rparr>)
             else (of_nat (length bits), s\<lparr>coroutine_ids := bits @ [True]\<rparr>))"

text \<open>
  Modelled from the spec: the release of an id, which \<open>RemoveCoroutine\<close> does when a
  coroutine is destroyed (4.5: it "deallocates id and removes"; 4.1: \<open>free(id)\<close>, with
  the "last-freed hint").
\<close>

definition FreeId :: "uint32_t \<Rightarrow> CoroutineScheduler \<Rightarrow> CoroutineScheduler" where
  "FreeId k s =
     s\<lparr>coroutine_ids := (coroutine_ids s)[unat k := False], last_freed_coroutine_id := k\<rparr>"

text \<open>
  The ids that are free slots of the bit set, and those of them other than the last
  freed id.
\<close>

definition free_id :: "CoroutineScheduler \<Rightarrow> nat \<Rightarrow> bool" where
  "free_id s i = (i < length (coroutine_ids s) \<and> \<not> coroutine_ids s ! i)"

definition other_free :: "CoroutineScheduler \<Rightarrow> nat \<Rightarrow> bool" where
  "other_free s i = (free_id s i \<and> i \<noteq> unat (last_freed_coroutine_id s))"

text \<open>A scheduler for the examples: the ids 0, 1, 2 and 4 are allocated and 3 is free.\<close>

definition a_scheduler :: CoroutineScheduler where
  "a_scheduler = CoroutineScheduler_ctor\<lparr>coroutine_ids := [True, True, True, False, True]\<rparr>"

section \<open>Properties of the constructors\<close>

lemma Generator_ctor_fresh:
  "state (Generator_ctor new_id efd auto_name function name_arg stack_size_arg user_data_arg)
     = kCoNew"
  "result (Generator_ctor new_id efd auto_name function name_arg stack_size_arg user_data_arg)
     = None"
  "resume (Generator_ctor new_id efd auto_name function name_arg stack_size_arg user_data_arg)
     = function"
  by (simp_all add: Generator_ctor_def Coroutine_ctor_def Generator_args_def
      Coroutine_args_def)

text \<open>
  C8. Whatever arguments a \<open>Generator\<close> is constructed with, the base constructor
  receives \<open>autostart = false\<close>, and the generator it builds is in state \<open>New\<close>: it has
  not been started. A \<open>Coroutine\<close> constructed without the \<open>autostart\<close> argument gets
  \<open>autostart = true\<close> and is started by its constructor, and one constructed without the
  \<open>stack_size\<close> argument gets \<open>kCoDefaultStackSize\<close>, which is 32 KiB (32768 bytes); a
  generator constructed without a stack size gets the same.
\<close>

theorem Generator_autostart_false_Coroutine_defaults:
  "arg_autostart (Generator_args name_arg stack_size_arg user_data_arg) = False
   \<and> state (Generator_ctor new_id efd auto_name function name_arg stack_size_arg
        user_data_arg) = kCoNew
   \<and> arg_autostart (Coroutine_args name_arg None stack_size_arg user_data_arg) = True
   \<and> state (Coroutine_ctor new_id efd auto_name fn
        (Coroutine_args name_arg None stack_size_arg user_data_arg) m) = kCoReady
   \<and> arg_stack_size (Coroutine_args name_arg autostart None user_data_arg)
        = kCoDefaultStackSize
   \<and> arg_stack_size (Generator_args name_arg None user_data_arg) = kCoDefaultStackSize
   \<and> unat kCoDefaultStackSize = 32 * 1024"
  by (simp add: Generator_ctor_def Coroutine_ctor_def Generator_args_def Coroutine_args_def
      Start_def kCoDefaultStackSize_def)

section \<open>Properties of YieldValue and Call\<close>

text \<open>
  C9. When the result slot of the generator is null, \<open>YieldValue\<close> does exactly what
  \<open>YieldNonTemplate\<close> does on the unchanged program state, whatever
  \<open>YieldNonTemplate\<close> is: the copy is skipped, no memory cell is written before the
  generator yields, and the generator yields control.
\<close>

theorem YieldValue_null_slot:
  "result (gen w) = None \<Longrightarrow> YieldValue yield_non_template v w = yield_non_template w"
  by (simp add: YieldValue_def)

theorem YieldValue_null_slot_witness:
  "result (gen example_world) = None
   \<and> YieldValue (YieldNonTemplate GenReturn) 5 example_world
       = YieldNonTemplate GenReturn example_world
   \<and> mem (YieldValue (YieldNonTemplate GenReturn) 5 example_world) = mem example_world
   \<and> state (gen (YieldValue (YieldNonTemplate GenReturn) 5 example_world)) = kCoYielded"
proof -
  have h: "result (gen example_world) = None"
    by (simp add: example_world_def Generator_ctor_fresh)
  show ?thesis
    using h YieldValue_null_slot [OF h, of "YieldNonTemplate GenReturn" 5]
    by (simp add: YieldNonTemplate_def)
qed

text \<open>What one \<open>Call\<close> does on a generator that is about to yield a value.\<close>

lemma Call_yields_value:
  assumes "state (gen w) \<noteq> kCoDead" and "resume (gen w) = GenYieldValue v rest"
  shows "Call CallNonTemplate this_co res dinit w =
     Some (v, w\<lparr>gen := (gen w)\<lparr>state := kCoYielded, first_resume := False,
                               event_armed := True, resume := rest,
                               caller := None, result := None\<rparr>,
              mem := (mem w)(res := v)\<rparr>)"
  using assms
  by (simp add: Call_def CallNonTemplate_def SwapInto_def YieldValue_def YieldNonTemplate_def
      Start_def Let_def default_initialise_def split: DefaultInit.splits)

text \<open>
  What one \<open>Call\<close> does on a generator whose body is about to return: it returns the
  local \<open>result\<close> as default-initialisation left it.
\<close>

lemma Call_body_returns:
  assumes "state (gen w) \<noteq> kCoDead" and "resume (gen w) = GenReturn"
  shows "Call CallNonTemplate this_co res dinit w =
     Some (default_initialise dinit res (mem w) res,
           w\<lparr>gen := (gen w)\<lparr>state := kCoDead, first_resume := False,
                             event_armed := (state (gen w) = kCoNew \<or> event_armed (gen w)),
                             caller := None, result := None\<rparr>,
             mem := default_initialise dinit res (mem w)\<rparr>)"
  using assms
  by (simp add: Call_def CallNonTemplate_def SwapInto_def Start_def Let_def)

text \<open>
  C1. Let the body of a generator that is not dead pass the values \<open>vs\<close> to
  \<open>YieldValue\<close>, in order, before it goes on as \<open>rest\<close> (which may yield further
  values, return, or never end). Then \<open>length vs\<close> successive calls of a caller, each
  from a frame of its own, all return, and the values they return are exactly \<open>vs\<close>, in
  order: the \<open>i\<close>-th call returns the \<open>i\<close>-th value. Each value travels through the
  slot that \<open>Call\<close> binds: \<open>YieldValue\<close> writes it to the cell \<open>result_\<close> points to and
  \<open>Call\<close> returns the content of that cell. The generator runs only inside these
  calls, as in the protocol of a generator that is never started but by \<open>Call\<close>.
\<close>

theorem generator_round_trip:
  "state (gen w) \<noteq> kCoDead \<Longrightarrow> resume (gen w) = yields vs rest \<Longrightarrow>
   length frames = length vs \<Longrightarrow>
   \<exists>w'. Calls this_co dinit frames w = Some (vs, w') \<and> resume (gen w') = rest"
proof (induction vs arbitrary: w frames)
  case Nil
  then show ?case by simp
next
  case (Cons v vs)
  from Cons.prems(3) obtain res frames'
    where fr: "frames = res # frames'" and len: "length frames' = length vs"
    by (cases frames) auto
  let ?w1 = "w\<lparr>gen := (gen w)\<lparr>state := kCoYielded, first_resume := False,
                               event_armed := True, resume := yields vs rest,
                               caller := None, result := None\<rparr>,
              mem := (mem w)(res := v)\<rparr>"
  have c1: "Call CallNonTemplate this_co res dinit w = Some (v, ?w1)"
    using Cons.prems(1,2) by (simp add: Call_yields_value)
  have "\<exists>w'. Calls this_co dinit frames' ?w1 = Some (vs, w') \<and> resume (gen w') = rest"
    by (rule Cons.IH) (simp_all add: len)
  then obtain w'
    where "Calls this_co dinit frames' ?w1 = Some (vs, w')" and "resume (gen w') = rest"
    by blast
  with c1 fr show ?case by simp
qed

theorem generator_round_trip_witness:
  "state (gen example_world) \<noteq> kCoDead
   \<and> resume (gen example_world) = yields [1, 2, 3] GenReturn
   \<and> length [10, 11, 12 :: addr] = length [1, 2, 3 :: nat]
   \<and> (\<exists>w'. Calls 7 Uninitialised [10, 11, 12] example_world = Some ([1, 2, 3], w')
          \<and> resume (gen w') = GenReturn)"
proof -
  have h1: "state (gen example_world) \<noteq> kCoDead"
    by (simp add: example_world_def Generator_ctor_fresh)
  have h2: "resume (gen example_world) = yields [1, 2, 3] GenReturn"
    by (simp add: example_world_def Generator_ctor_fresh)
  have h3: "length [10, 11, 12 :: addr] = length [1, 2, 3 :: nat]"
    by simp
  from generator_round_trip [OF h1 h2 h3, of 7 Uninitialised] h1 h2 h3 show ?thesis
    by blast
qed

text \<open>
  For a type \<open>T\<close> with a default constructor: if the body of a generator that is not
  dead returns when it is next given control, without executing \<open>YieldValue\<close>, the
  \<open>Call\<close> that drives it returns the default-constructed value, and the generator is
  dead afterwards.
\<close>

lemma Call_without_yield_class_type:
  "state (gen w) \<noteq> kCoDead \<Longrightarrow> resume (gen w) = GenReturn \<Longrightarrow>
   \<exists>w'. Call CallNonTemplate this_co res (DefaultConstructed d) w = Some (d, w')
        \<and> state (gen w') = kCoDead"
  by (simp add: Call_body_returns default_initialise_def)

text \<open>
  For a scalar type \<open>T\<close> the same \<open>Call\<close> returns what the cell of its local held
  before the call.
\<close>

lemma Call_without_yield_scalar:
  "state (gen w) \<noteq> kCoDead \<Longrightarrow> resume (gen w) = GenReturn \<Longrightarrow>
   \<exists>w'. Call CallNonTemplate this_co res Uninitialised w = Some (mem w res, w')
        \<and> state (gen w') = kCoDead"
  by (simp add: Call_body_returns default_initialise_def)

text \<open>
  C3. The claim is that a \<open>Call\<close> driving a generator whose body returns without
  executing \<open>YieldValue\<close> returns a default-constructed \<open>T\<close>. For a generator of
  numbers, a scalar type whose default value is 0, the code does not: \<open>T result;\<close>
  leaves the local uninitialised and \<open>Call\<close> returns the stale content of its cell.
  A generator whose body returns at once, called from a frame whose cell holds 42,
  makes \<open>Call\<close> return 42. A generator that yields 1, 2 and 3 and returns, called four
  times from the same frame, makes the calls return 1, 2, 3 and 3: the fourth call,
  which drives the return of the body, returns the value the third call left in the
  cell.
\<close>

theorem Call_without_yield_scalar_returns_stale:
  "(\<exists>w'. Call CallNonTemplate 7 10 Uninitialised
            \<lparr>gen = Generator_ctor 0 3 ''gen'' GenReturn None None None,
             mem = (\<lambda>_. 0 :: nat)(10 := 42)\<rparr>
          = Some (42, w')
        \<and> state (gen w') = kCoDead)
   \<and> (\<exists>w'. Calls 7 Uninitialised [10, 10, 10, 10] example_world = Some ([1, 2, 3, 3], w')
        \<and> state (gen w') = kCoDead)"
proof
  let ?w = "\<lparr>gen = Generator_ctor 0 3 ''gen'' (GenReturn :: nat GenCode) None None None,
            mem = (\<lambda>_. 0 :: nat)(10 := 42)\<rparr>"
  have "state (gen ?w) \<noteq> kCoDead" and "resume (gen ?w) = GenReturn"
    by (simp_all add: Generator_ctor_fresh)
  from Call_without_yield_scalar [OF this, of 7 10]
  show "\<exists>w'. Call CallNonTemplate 7 10 Uninitialised ?w = Some (42, w')
        \<and> state (gen w') = kCoDead"
    by simp
next
  have st: "state (gen example_world) \<noteq> kCoDead"
    and re: "resume (gen example_world) = yields [1, 2, 3] GenReturn"
    by (simp_all add: example_world_def Generator_ctor_fresh)
  define w1 where
    "w1 = example_world\<lparr>gen := (gen example_world)
             \<lparr>state := kCoYielded, first_resume := False, event_armed := True,
              resume := yields [2, 3] GenReturn, caller := None, result := None\<rparr>,
           mem := (mem example_world)(10 := 1)\<rparr>"
  define w2 where
    "w2 = w1\<lparr>gen := (gen w1)
             \<lparr>state := kCoYielded, first_resume := False, event_armed := True,
              resume := yields [3] GenReturn, caller := None, result := None\<rparr>,
           mem := (mem w1)(10 := 2)\<rparr>"
  define w3 where
    "w3 = w2\<lparr>gen := (gen w2)
             \<lparr>state := kCoYielded, first_resume := False, event_armed := True,
              resume := GenReturn, caller := None, result := None\<rparr>,
           mem := (mem w2)(10 := 3)\<rparr>"
  have c1: "Call CallNonTemplate 7 10 Uninitialised example_world = Some (1, w1)"
    unfolding w1_def using st re by (simp add: Call_yields_value)
  have c2: "Call CallNonTemplate 7 10 Uninitialised w1 = Some (2, w2)"
    unfolding w2_def by (rule Call_yields_value) (simp_all add: w1_def)
  have c3: "Call CallNonTemplate 7 10 Uninitialised w2 = Some (3, w3)"
    unfolding w3_def by (rule Call_yields_value) (simp_all add: w2_def)
  have st3: "state (gen w3) \<noteq> kCoDead" and re3: "resume (gen w3) = GenReturn"
    and m3: "mem w3 10 = 3"
    by (simp_all add: w3_def)
  from Call_without_yield_scalar [OF st3 re3, of 7 10] m3
  obtain w4 where c4: "Call CallNonTemplate 7 10 Uninitialised w3 = Some (3, w4)"
    and d: "state (gen w4) = kCoDead"
    by auto
  from c1 c2 c3 c4 have "Calls 7 Uninitialised [10, 10, 10, 10] example_world
      = Some ([1, 2, 3, 3], w4)"
    by simp
  with d show "\<exists>w'. Calls 7 Uninitialised [10, 10, 10, 10] example_world
      = Some ([1, 2, 3, 3], w') \<and> state (gen w') = kCoDead"
    by blast
qed

text \<open>\<open>Call\<close> leaves the slot null, whatever \<open>CallNonTemplate\<close> did.\<close>

lemma Call_unbinds:
  "Call cnt this_co res dinit w = Some (v, w') \<Longrightarrow> result (gen w') = None"
  by (auto simp: Call_def Let_def split: option.splits)

text \<open>A slot that is null before a sequence of calls is null after it.\<close>

lemma Calls_unbound:
  "result (gen w) = None \<Longrightarrow> Calls this_co dinit frames w = Some (vs, w') \<Longrightarrow>
   result (gen w') = None"
proof (induction frames arbitrary: w vs)
  case Nil
  then show ?case by simp
next
  case (Cons res frames)
  from Cons.prems(2) obtain v w1 vs1
    where c: "Call CallNonTemplate this_co res dinit w = Some (v, w1)"
      and cs: "Calls this_co dinit frames w1 = Some (vs1, w')"
    by (auto split: option.splits prod.splits)
  from c have "result (gen w1) = None" by (rule Call_unbinds)
  from this cs show ?case by (rule Cons.IH)
qed

text \<open>
  C4. The result slot of a generator is null when the generator is constructed. \<open>Call\<close>
  hands control to \<open>CallNonTemplate\<close> in a state where the slot points to the local
  \<open>result\<close> of the caller's frame and \<open>caller_\<close> is the caller, and this state does
  not depend on what \<open>CallNonTemplate\<close> is; when \<open>CallNonTemplate\<close> comes back,
  \<open>Call\<close> returns the content of that local and a state whose slot is null. So after
  every \<open>Call\<close> that returns the slot is null, whatever \<open>CallNonTemplate\<close> did, and
  a slot that is null before a sequence of calls is null after it: outside a \<open>Call\<close>
  there is no slot to read or write through.
\<close>

theorem result_slot_bound_only_during_Call:
  "result (Generator_ctor new_id efd auto_name function name_arg stack_size_arg user_data_arg)
     = None
   \<and> (\<exists>w3. result (gen w3) = Some res \<and> caller (gen w3) = Some this_co \<and>
          (\<forall>cnt. Call cnt this_co res dinit w =
             (case cnt w3 of
                None \<Rightarrow> None
              | Some w4 \<Rightarrow> Some (mem w4 res, w4\<lparr>gen := (gen w4)\<lparr>result := None\<rparr>\<rparr>))))
   \<and> (\<forall>cnt v w'. Call cnt this_co res dinit w = Some (v, w') \<longrightarrow> result (gen w') = None)
   \<and> (\<forall>vs w'. result (gen w) = None \<longrightarrow> Calls this_co dinit frames w = Some (vs, w')
         \<longrightarrow> result (gen w') = None)"
proof (intro conjI)
  show "result (Generator_ctor new_id efd auto_name function name_arg stack_size_arg
          user_data_arg) = None"
    by (simp add: Generator_ctor_fresh)
next
  let ?w3 = "w\<lparr>mem := default_initialise dinit res (mem w),
               gen := (gen w)\<lparr>caller := Some this_co, result := Some res\<rparr>\<rparr>"
  have "result (gen ?w3) = Some res \<and> caller (gen ?w3) = Some this_co \<and>
          (\<forall>cnt. Call cnt this_co res dinit w =
             (case cnt ?w3 of
                None \<Rightarrow> None
              | Some w4 \<Rightarrow> Some (mem w4 res, w4\<lparr>gen := (gen w4)\<lparr>result := None\<rparr>\<rparr>)))"
    by (simp add: Call_def Let_def split: option.splits)
  then show "\<exists>w3. result (gen w3) = Some res \<and> caller (gen w3) = Some this_co \<and>
          (\<forall>cnt. Call cnt this_co res dinit w =
             (case cnt w3 of
                None \<Rightarrow> None
              | Some w4 \<Rightarrow> Some (mem w4 res, w4\<lparr>gen := (gen w4)\<lparr>result := None\<rparr>\<rparr>)))"
    by (rule exI)
next
  show "\<forall>cnt v w'. Call cnt this_co res dinit w = Some (v, w') \<longrightarrow> result (gen w') = None"
    by (blast intro: Call_unbinds)
next
  show "\<forall>vs w'. result (gen w) = None \<longrightarrow> Calls this_co dinit frames w = Some (vs, w')
         \<longrightarrow> result (gen w') = None"
    by (blast intro: Calls_unbound)
qed

theorem result_slot_bound_only_during_Call_witness:
  "result (gen example_world) = None
   \<and> (\<exists>v w'. Call CallNonTemplate 7 10 Uninitialised example_world = Some (v, w')
         \<and> result (gen w') = None)
   \<and> (\<exists>vs w'. Calls 7 Uninitialised [10] example_world = Some (vs, w')
         \<and> result (gen w') = None)"
proof -
  have h: "result (gen example_world) = None"
    by (simp add: example_world_def Generator_ctor_fresh)
  have st: "state (gen example_world) \<noteq> kCoDead"
    and re: "resume (gen example_world) = GenYieldValue 1 (yields [2, 3] GenReturn)"
    by (simp_all add: example_world_def Generator_ctor_fresh)
  from st re obtain w1
    where c: "Call CallNonTemplate 7 10 Uninitialised example_world = Some (1, w1)"
    by (simp add: Call_yields_value)
  then have cs: "Calls 7 Uninitialised [10] example_world = Some ([1], w1)"
    by simp
  note t = result_slot_bound_only_during_Call
    [of 0 3 "''gen''" GenReturn None None None 10 7 Uninitialised example_world "[10]"]
  from t c have r1: "result (gen w1) = None" by blast
  from t h cs have r2: "result (gen w1) = None" by blast
  from h c cs r1 r2 show ?thesis by blast
qed

section \<open>Properties of the sleeping functions\<close>

lemma static_cast_uint64_t_id: "static_cast_uint64_t t = t"
  by (simp add: static_cast_uint64_t_def)

text \<open>
  A non-negative \<open>time_t\<close> times a unit factor, computed in \<open>uint64_t\<close>, is the product
  of the integers when that product is below \<open>2 ^ 64\<close>.
\<close>

lemma uint_scaled:
  fixes t :: "64 word"
  assumes "0 \<le> sint t" and "sint t * k < 2 ^ 64" and "0 \<le> k" and "k < 2 ^ 64"
  shows "uint (t * word_of_int k) = sint t * k"
proof -
  have "sint t < 2 ^ 63" using sint_less [of t] by simp
  with assms(1) have "take_bit 64 (sint t) = sint t"
    by (simp add: take_bit_int_eq_self)
  then have su: "sint t = uint t" by (simp add: uint_sint)
  have uk: "uint (word_of_int k :: 64 word) = k"
    using assms(3,4) by (simp add: uint_word_of_int)
  have "uint (t * word_of_int k) = (uint t * k) mod 2 ^ 64"
    by (simp add: uint_word_ariths uk)
  also have "\<dots> = uint t * k"
    using assms(2,3) su by (simp add: mod_pos_pos_trivial)
  finally show ?thesis using su by simp
qed

text \<open>
  C6. \<open>Nanosleep ns\<close> leaves the coroutine as \<open>Wait\<close> does on no descriptors with the
  timeout \<open>ns\<close>. \<open>Millisleep msecs\<close> is \<open>Nanosleep\<close> of \<open>msecs * 1000000\<close> and
  \<open>Sleep secs\<close> is \<open>Nanosleep\<close> of \<open>secs * 1000000000\<close>, whatever \<open>Nanosleep\<close>
  is, the products being those of \<open>uint64_t\<close>; so with the \<open>Nanosleep\<close> above they
  are that \<open>Wait\<close> with the converted timeout. For a count that is not negative and
  whose product is below \<open>2 ^ 64\<close>, the nanoseconds passed on are exactly the product
  of the integers.
\<close>

theorem sleeps_are_Wait_with_timeout:
  "Nanosleep new_timer resumption ns c = snd (Wait [] ns new_timer resumption c)
   \<and> Millisleep nanosleep msecs s = nanosleep (msecs * 1000000) s
   \<and> Sleep nanosleep secs s = nanosleep (secs * 1000000000) s
   \<and> Millisleep (Nanosleep new_timer resumption) msecs c
       = snd (Wait [] (msecs * 1000000) new_timer resumption c)
   \<and> Sleep (Nanosleep new_timer resumption) secs c
       = snd (Wait [] (secs * 1000000000) new_timer resumption c)
   \<and> (0 \<le> sint msecs \<and> sint msecs * 1000000 < 2 ^ 64 \<longrightarrow>
        (\<exists>n. uint n = sint msecs * 1000000 \<and> Millisleep nanosleep msecs s = nanosleep n s))
   \<and> (0 \<le> sint secs \<and> sint secs * 1000000000 < 2 ^ 64 \<longrightarrow>
        (\<exists>n. uint n = sint secs * 1000000000 \<and> Sleep nanosleep secs s = nanosleep n s))"
proof -
  have ms: "Millisleep f msecs x = f (msecs * 1000000) x" for f :: "uint64_t \<Rightarrow> 'x \<Rightarrow> 'x" and x
    by (simp add: Millisleep_def static_cast_uint64_t_id)
  have sl: "Sleep f secs x = f (secs * 1000000000) x" for f :: "uint64_t \<Rightarrow> 'x \<Rightarrow> 'x" and x
    by (simp add: Sleep_def static_cast_uint64_t_id)
  have m: "uint (msecs * 1000000) = sint msecs * 1000000"
    if "0 \<le> sint msecs" and "sint msecs * 1000000 < 2 ^ 64"
    using uint_scaled [OF that] by simp
  have s: "uint (secs * 1000000000) = sint secs * 1000000000"
    if "0 \<le> sint secs" and "sint secs * 1000000000 < 2 ^ 64"
    using uint_scaled [OF that] by simp
  show ?thesis
    using m s by (auto simp add: ms sl Nanosleep_def)
qed

theorem sleeps_are_Wait_with_timeout_witness:
  "(0 :: int) \<le> sint (5 :: time_t) \<and> sint (5 :: time_t) * 1000000 < 2 ^ 64
   \<and> (\<exists>n. uint n = 5000000
          \<and> Millisleep (Nanosleep 9 (1, 9)) 5 example_coroutine
              = Nanosleep 9 (1, 9) n example_coroutine)
   \<and> (0 :: int) \<le> sint (2 :: time_t) \<and> sint (2 :: time_t) * 1000000000 < 2 ^ 64
   \<and> (\<exists>n. uint n = 2000000000
          \<and> Sleep (Nanosleep 9 (1, 9)) 2 example_coroutine
              = Nanosleep 9 (1, 9) n example_coroutine)"
proof -
  have h1: "(0 :: int) \<le> sint (5 :: time_t) \<and> sint (5 :: time_t) * 1000000 < 2 ^ 64"
    by simp
  have h2: "(0 :: int) \<le> sint (2 :: time_t) \<and> sint (2 :: time_t) * 1000000000 < 2 ^ 64"
    by simp
  note t = sleeps_are_Wait_with_timeout
    [of 9 "(1, 9)" 0 example_coroutine "Nanosleep 9 (1, 9)" 5 example_coroutine 2]
  from t h1 have "\<exists>n. uint n = sint (5 :: time_t) * 1000000
          \<and> Millisleep (Nanosleep 9 (1, 9)) 5 example_coroutine
              = Nanosleep 9 (1, 9) n example_coroutine"
    by blast
  moreover from t h2 have "\<exists>n. uint n = sint (2 :: time_t) * 1000000000
          \<and> Sleep (Nanosleep 9 (1, 9)) 2 example_coroutine
              = Nanosleep 9 (1, 9) n example_coroutine"
    by blast
  ultimately show ?thesis using h1 h2 by simp
qed

section \<open>Properties of LastTick\<close>

lemma apply_event_last_tick:
  "\<not> is_resume e \<Longrightarrow> last_tick (apply_event e c) = last_tick c"
  by (cases e) (simp_all add: SetName_def SetUserData_def SeToStringCallback_def Start_def
      Yield_def BeginWait_def AddTimeout_def EndOfWait_def Exit_def Let_def)

lemma run_events_last_tick:
  "\<forall>e \<in> set es. \<not> is_resume e \<Longrightarrow> last_tick (run_events es c) = last_tick c"
  by (induction es arbitrary: c) (simp_all add: apply_event_last_tick)

lemma Coroutine_ctor_last_tick:
  "last_tick (Coroutine_ctor new_id efd auto_name function args m) = 0"
  by (simp add: Coroutine_ctor_def Start_def Let_def)

text \<open>
  C10. \<open>LastTick\<close> of a coroutine fresh from its constructor is 0; it is still 0 after
  any history in which the coroutine was not resumed; and an event that changes
  \<open>LastTick\<close> is a resume.
\<close>

theorem LastTick_zero_until_resumed:
  "LastTick (Coroutine_ctor new_id efd auto_name function args m) = 0
   \<and> ((\<forall>e \<in> set es. \<not> is_resume e) \<longrightarrow>
        LastTick (run_events es (Coroutine_ctor new_id efd auto_name function args m)) = 0)
   \<and> (LastTick (apply_event e c) \<noteq> LastTick c \<longrightarrow> is_resume e)"
  using apply_event_last_tick [of e c]
  by (auto simp add: LastTick_def run_events_last_tick Coroutine_ctor_last_tick)

theorem LastTick_zero_until_resumed_witness:
  "LastTick (run_events [EvSetName ''worker'', EvStart, EvSetUserData (Some 64)]
       example_coroutine) = 0
   \<and> LastTick (apply_event (EvResume 7 4) example_coroutine) \<noteq> LastTick example_coroutine
   \<and> is_resume (EvResume 7 4)"
proof -
  note t = LastTick_zero_until_resumed
    [of 1 4 "''co-1''" "()" "Coroutine_args None None None None" "()"
        "[EvSetName ''worker'', EvStart, EvSetUserData (Some 64)]" "EvResume 7 4"
        example_coroutine]
  have "\<forall>e \<in> set [EvSetName ''worker'', EvStart, EvSetUserData (Some 64)]. \<not> is_resume e"
    by simp
  with t have "LastTick (run_events [EvSetName ''worker'', EvStart, EvSetUserData (Some 64)]
       example_coroutine) = 0"
    unfolding example_coroutine_def by blast
  moreover have "LastTick (apply_event (EvResume 7 4) example_coroutine)
       \<noteq> LastTick example_coroutine"
    by (simp add: example_coroutine_def LastTick_def Resume_def Coroutine_ctor_def
        Coroutine_args_def Start_def)
  ultimately show ?thesis by simp
qed

section \<open>Properties of Wait\<close>

lemma Wait_result:
  "fst (Wait fds timeout_ns new_timer (tick, trig) c) =
     (if 0 < timeout_ns \<and> trig = new_timer \<or> trig = -1 then -1 else trig)"
  by (simp add: Wait_def BeginWait_def AddTimeout_def Resume_def EndOfWait_def Let_def)

text \<open>
  C2. Let a \<open>Wait\<close> be resumed with the descriptor \<open>trig\<close> that triggered the
  resumption, a descriptor being a non-negative number. The wait ended by timeout when
  a timeout was asked for (\<open>timeout_ns > 0\<close>) and \<open>trig\<close> is the timer's descriptor. In
  each of the three variants \<open>Wait\<close> returns \<open>-1\<close> if the wait ended by timeout and
  \<open>trig\<close> otherwise, and it returns \<open>-1\<close> exactly when the wait ended by timeout.
\<close>

theorem Wait_returns_fd_or_timeout_sentinel:
  "0 \<le> trig \<Longrightarrow>
   fst (Wait fds timeout_ns new_timer (tick, trig) c)
     = (if 0 < timeout_ns \<and> trig = new_timer then -1 else trig)
   \<and> (fst (Wait fds timeout_ns new_timer (tick, trig) c) = -1)
       = (0 < timeout_ns \<and> trig = new_timer)
   \<and> fst (Wait_fd f event_mask timeout_ns new_timer (tick, trig) c)
       = (if 0 < timeout_ns \<and> trig = new_timer then -1 else trig)
   \<and> (fst (Wait_fd f event_mask timeout_ns new_timer (tick, trig) c) = -1)
       = (0 < timeout_ns \<and> trig = new_timer)
   \<and> fst (Wait_pollfd pfd timeout_ns new_timer (tick, trig) c)
       = (if 0 < timeout_ns \<and> trig = new_timer then -1 else trig)
   \<and> (fst (Wait_pollfd pfd timeout_ns new_timer (tick, trig) c) = -1)
       = (0 < timeout_ns \<and> trig = new_timer)"
  by (auto simp add: Wait_result Wait_fd_def Wait_pollfd_def)

theorem Wait_returns_fd_or_timeout_sentinel_witness:
  "(0 :: int) \<le> 5
   \<and> fst (Wait_fd 5 POLLIN 5000000 9 (3, 5) example_coroutine) = 5
   \<and> fst (Wait_fd 5 POLLIN 5000000 9 (3, 9) example_coroutine) = -1
   \<and> fst (Wait [\<lparr>fd = 5, events = POLLIN\<rparr>, \<lparr>fd = 6, events = POLLIN\<rparr>] 0 9 (3, 6)
            example_coroutine) = 6"
proof -
  have h5: "(0 :: int) \<le> 5" and h9: "(0 :: int) \<le> 9" and h6: "(0 :: int) \<le> 6"
    by simp_all
  from Wait_returns_fd_or_timeout_sentinel
         [OF h5, of "[]" 5000000 9 3 example_coroutine 5 POLLIN "\<lparr>fd = 5, events = POLLIN\<rparr>"]
  have a: "fst (Wait_fd 5 POLLIN 5000000 9 (3, 5) example_coroutine) = 5"
    by simp
  from Wait_returns_fd_or_timeout_sentinel
         [OF h9, of "[]" 5000000 9 3 example_coroutine 5 POLLIN "\<lparr>fd = 5, events = POLLIN\<rparr>"]
  have b: "fst (Wait_fd 5 POLLIN 5000000 9 (3, 9) example_coroutine) = -1"
    by simp
  from Wait_returns_fd_or_timeout_sentinel
         [OF h6, of "[\<lparr>fd = 5, events = POLLIN\<rparr>, \<lparr>fd = 6, events = POLLIN\<rparr>]" 0 9 3
            example_coroutine 5 POLLIN "\<lparr>fd = 5, events = POLLIN\<rparr>"]
  have c: "fst (Wait [\<lparr>fd = 5, events = POLLIN\<rparr>, \<lparr>fd = 6, events = POLLIN\<rparr>] 0 9 (3, 6)
            example_coroutine) = 6"
    by simp
  from a b c show ?thesis by simp
qed

section \<open>Properties of the id allocation\<close>

lemma find_upt_None:
  "find P [0..<n] = None \<longleftrightarrow> (\<forall>i<n. \<not> P i)"
  by (auto simp: find_None_iff)

lemma find_upt_Some:
  "find P [0..<n] = Some i \<longleftrightarrow> i < n \<and> P i \<and> (\<forall>j<i. \<not> P j)"
  by (auto simp: find_Some_iff)

lemma AllocateId_find:
  "fst (AllocateId s) =
     (case find (other_free s) [0..<length (coroutine_ids s)] of
        Some i \<Rightarrow> of_nat i
      | None \<Rightarrow>
          if free_id s (unat (last_freed_coroutine_id s)) then last_freed_coroutine_id s
          else of_nat (length (coroutine_ids s)))"
proof -
  have eq: "find (\<lambda>i. \<not> coroutine_ids s ! i \<and> i \<noteq> unat (last_freed_coroutine_id s))
              [0..<length (coroutine_ids s)]
          = find (other_free s) [0..<length (coroutine_ids s)]"
    by (rule find_cong) (auto simp add: other_free_def free_id_def)
  show ?thesis
    unfolding AllocateId_def Let_def eq
    by (auto simp add: free_id_def split: option.splits)
qed

lemma AllocateId_other:
  assumes "other_free s i" and "\<forall>j<i. \<not> other_free s j"
  shows "fst (AllocateId s) = of_nat i"
proof -
  from assms(1) have "i < length (coroutine_ids s)"
    by (simp add: other_free_def free_id_def)
  with assms have "find (other_free s) [0..<length (coroutine_ids s)] = Some i"
    by (simp add: find_upt_Some)
  then show ?thesis by (simp add: AllocateId_find)
qed

lemma AllocateId_no_other:
  assumes "\<forall>i. \<not> other_free s i"
  shows "fst (AllocateId s) =
     (if free_id s (unat (last_freed_coroutine_id s)) then last_freed_coroutine_id s
      else of_nat (length (coroutine_ids s)))"
proof -
  from assms have "find (other_free s) [0..<length (coroutine_ids s)] = None"
    by (simp add: find_upt_None)
  then show ?thesis by (simp add: AllocateId_find)
qed

lemma lowest_other_free:
  assumes "other_free s i"
  shows "other_free s (LEAST j. other_free s j) \<and> (\<forall>j<(LEAST j. other_free s j). \<not> other_free s j)"
  using assms by (metis LeastI not_less_Least)

lemma other_free_bound:
  "other_free s i \<Longrightarrow> length (coroutine_ids s) \<le> 2 ^ 32 \<Longrightarrow>
   unat (of_nat i :: uint32_t) = i \<and> (of_nat i :: uint32_t) \<noteq> last_freed_coroutine_id s"
proof -
  assume a: "other_free s i" and b: "length (coroutine_ids s) \<le> 2 ^ 32"
  then have "i < 2 ^ 32" by (simp add: other_free_def free_id_def)
  then have u: "unat (of_nat i :: uint32_t) = i"
    by (simp add: unat_of_nat)
  moreover from a have "i \<noteq> unat (last_freed_coroutine_id s)" by (simp add: other_free_def)
  ultimately show ?thesis by auto
qed

lemma AllocateId_policy:
  assumes "length (coroutine_ids s) \<le> 2 ^ 32"
  shows "(fst (AllocateId s) = last_freed_coroutine_id s \<longrightarrow>
            (\<forall>i. free_id s i \<longrightarrow> i = unat (last_freed_coroutine_id s)))
       \<and> ((\<exists>i. free_id s i \<and> i \<noteq> unat (last_freed_coroutine_id s)) \<longrightarrow>
            unat (fst (AllocateId s))
              = (LEAST i. free_id s i \<and> i \<noteq> unat (last_freed_coroutine_id s)))
       \<and> ((\<forall>i. free_id s i \<longrightarrow> i = unat (last_freed_coroutine_id s))
            \<and> free_id s (unat (last_freed_coroutine_id s)) \<longrightarrow>
            fst (AllocateId s) = last_freed_coroutine_id s)"
proof (cases "\<exists>i. other_free s i")
  case True
  then obtain i where "other_free s i" ..
  then have l: "other_free s (LEAST j. other_free s j)"
    and m: "\<forall>j<(LEAST j. other_free s j). \<not> other_free s j"
    using lowest_other_free by blast+
  from l m have r: "fst (AllocateId s) = of_nat (LEAST j. other_free s j)"
    by (rule AllocateId_other)
  from other_free_bound [OF l assms] r
  have "unat (fst (AllocateId s)) = (LEAST j. other_free s j)"
    and "fst (AllocateId s) \<noteq> last_freed_coroutine_id s"
    by simp_all
  moreover have "(LEAST j. other_free s j)
      = (LEAST i. free_id s i \<and> i \<noteq> unat (last_freed_coroutine_id s))"
    by (simp add: other_free_def)
  ultimately show ?thesis using True by (auto simp add: other_free_def)
next
  case False
  then have no: "\<forall>i. \<not> other_free s i" by simp
  then have none: "\<forall>i. free_id s i \<longrightarrow> i = unat (last_freed_coroutine_id s)"
    by (auto simp add: other_free_def)
  from AllocateId_no_other [OF no]
  have "free_id s (unat (last_freed_coroutine_id s)) \<longrightarrow>
            fst (AllocateId s) = last_freed_coroutine_id s"
    by simp
  with none show ?thesis by blast
qed

lemma free_id_FreeId:
  "unat k < length (coroutine_ids s) \<Longrightarrow>
   free_id (FreeId k s) i = (i = unat k \<or> free_id s i)"
  by (auto simp add: free_id_def FreeId_def nth_list_update)


lemma AllocateId_after_FreeId:
  assumes len: "length (coroutine_ids s) \<le> 2 ^ 32" and k: "unat k < length (coroutine_ids s)"
  shows "(fst (AllocateId (FreeId k s)) = k)
       = (\<forall>i<length (coroutine_ids s). i \<noteq> unat k \<longrightarrow> coroutine_ids s ! i)"
proof -
  let ?s = "FreeId k s"
  have len': "length (coroutine_ids ?s) \<le> 2 ^ 32" using len by (simp add: FreeId_def)
  have lf: "last_freed_coroutine_id ?s = k" by (simp add: FreeId_def)
  note p = AllocateId_policy [OF len', unfolded lf]
  have fr: "free_id ?s i = (i = unat k \<or> free_id s i)" for i
    using k by (rule free_id_FreeId)
  show ?thesis
  proof
    assume "fst (AllocateId ?s) = k"
    with p have "\<forall>i. free_id ?s i \<longrightarrow> i = unat k" by blast
    then have "\<forall>i. free_id s i \<longrightarrow> i = unat k" by (simp add: fr)
    then show "\<forall>i<length (coroutine_ids s). i \<noteq> unat k \<longrightarrow> coroutine_ids s ! i"
      by (auto simp add: free_id_def)
  next
    assume "\<forall>i<length (coroutine_ids s). i \<noteq> unat k \<longrightarrow> coroutine_ids s ! i"
    then have "\<forall>i. free_id s i \<longrightarrow> i = unat k"
      by (auto simp add: free_id_def)
    then have "\<forall>i. free_id ?s i \<longrightarrow> i = unat k" by (simp add: fr)
    moreover have "free_id ?s (unat k)" by (simp add: fr)
    ultimately show "fst (AllocateId ?s) = k" using p by blast
  qed
qed

text \<open>
  C7. In a bit set of 32-bit ids, where an id is free when its slot is in the set and
  its bit is unset: if \<open>AllocateId\<close> returns the last freed id, no other id is free;
  if some id other than the last freed one is free, \<open>AllocateId\<close> returns the lowest
  such id; if the last freed id is the only free id, \<open>AllocateId\<close> returns it. So after
  the id \<open>k\<close> of a destroyed coroutine is freed, the next allocation returns \<open>k\<close>
  exactly when every other id of the set is allocated.
\<close>

theorem AllocateId_avoids_last_freed:
  assumes "length (coroutine_ids s) \<le> 2 ^ 32"
  shows "(fst (AllocateId s) = last_freed_coroutine_id s \<longrightarrow>
            (\<forall>i. free_id s i \<longrightarrow> i = unat (last_freed_coroutine_id s)))
       \<and> ((\<exists>i. free_id s i \<and> i \<noteq> unat (last_freed_coroutine_id s)) \<longrightarrow>
            unat (fst (AllocateId s))
              = (LEAST i. free_id s i \<and> i \<noteq> unat (last_freed_coroutine_id s)))
       \<and> ((\<forall>i. free_id s i \<longrightarrow> i = unat (last_freed_coroutine_id s))
            \<and> free_id s (unat (last_freed_coroutine_id s)) \<longrightarrow>
            fst (AllocateId s) = last_freed_coroutine_id s)
       \<and> (unat k < length (coroutine_ids s) \<longrightarrow>
            (fst (AllocateId (FreeId k s)) = k)
              = (\<forall>i<length (coroutine_ids s). i \<noteq> unat k \<longrightarrow> coroutine_ids s ! i))"
  using AllocateId_policy [OF assms] AllocateId_after_FreeId [OF assms, of k]
  by blast

theorem AllocateId_avoids_last_freed_witness:
  "length (coroutine_ids a_scheduler) \<le> 2 ^ 32
   \<and> fst (AllocateId (FreeId 1 a_scheduler)) \<noteq> 1
   \<and> fst (AllocateId (FreeId 3 a_scheduler)) = 3"
proof -
  have len: "length (coroutine_ids a_scheduler) \<le> 2 ^ 32"
    by (simp add: a_scheduler_def)
  have bits: "coroutine_ids a_scheduler = [True, True, True, False, True]"
    by (simp add: a_scheduler_def)
  have k1: "unat (1 :: uint32_t) < length (coroutine_ids a_scheduler)"
    and k3: "unat (3 :: uint32_t) < length (coroutine_ids a_scheduler)"
    by (simp_all add: bits)
  have u1: "unat (1 :: uint32_t) = 1" and u3: "unat (3 :: uint32_t) = 3"
    by simp_all
  have "\<not> (\<forall>i<length (coroutine_ids a_scheduler).
              i \<noteq> unat (1 :: uint32_t) \<longrightarrow> coroutine_ids a_scheduler ! i)"
    unfolding bits u1 by (simp add: All_less_Suc)
  with AllocateId_avoids_last_freed [OF len, of 1] k1
  have a: "fst (AllocateId (FreeId 1 a_scheduler)) \<noteq> 1" by blast
  have "\<forall>i<length (coroutine_ids a_scheduler).
              i \<noteq> unat (3 :: uint32_t) \<longrightarrow> coroutine_ids a_scheduler ! i"
    unfolding bits u3 by (simp add: All_less_Suc)
  with AllocateId_avoids_last_freed [OF len, of 3] k3
  have b: "fst (AllocateId (FreeId 3 a_scheduler)) = 3" by blast
  from len a b show ?thesis by simp
qed

end
